theory Spec2Isabelle
  imports Complex_Main
begin

section \<open>Data model\<close>

text \<open>
  The bot keeps its state in four tables of an external store (users, transactions,
  withdrawals, sponsors and user\_sponsors) which it reaches through \<open>Database\<close>.
  Each table is a list of rows. Amounts (Python floats in the source) are exact
  rationals here, time stamps are whole seconds.

  The texts the bot writes are Russian sentences with values formatted into them; a
  text is represented by a constructor for its template, carrying the inserted values.
\<close>

datatype descr =
    ForInviting "string option"
  | ForReferralSignup
  | Clicker
  | ClickShare string
  | FlipWinDescr
  | FlipLoseDescr
  | CrashWinDescr rat
  | CrashLoseDescr
  | SlotWinDescr rat
  | SlotLoseDescr
  | DiceWinDescr
  | DiceLoseDescr
  | JackpotPurchase int
  | JackpotWinDescr rat
  | WithdrawalNo int

record user =
  user_id :: int
  username :: string
  referrer_id :: "int option"
  created_at :: int
  balance :: rat
  last_click :: "int option"
  total_wagered :: rat
  games_played :: int
  games_won :: int

record transaction =
  t_user_id :: int
  t_amount :: rat
  t_type :: string
  t_description :: descr
  t_created_at :: int

record withdrawal =
  w_id :: int
  w_user_id :: int
  w_amount :: rat
  w_status :: string
  w_created_at :: int

record user_sponsor =
  us_user_id :: int
  us_sponsor_id :: int
  us_is_subscribed :: bool
  us_last_check :: int

text \<open>
  \<open>sponsors\<close> holds the ids of the rows of the sponsors table (its other columns are
  only shown to the user). \<open>outages\<close> is the schedule of store failures: every request
  sent to the store takes the head of the list, and \<open>True\<close> there means that this
  request raises. An empty schedule is a store that answers every request.
\<close>

record db =
  users :: "user list"
  transactions :: "transaction list"
  withdrawals :: "withdrawal list"
  sponsors :: "int list"
  user_sponsors :: "user_sponsor list"
  outages :: "bool list"

section \<open>config.py\<close>

definition CLICK_REWARD :: rat where "CLICK_REWARD = 2 / 10"
definition CLICK_COOLDOWN :: int where "CLICK_COOLDOWN = 3600"
definition REFERRAL_REWARD_REFERRER :: rat where "REFERRAL_REWARD_REFERRER = 3"
definition REFERRAL_REWARD_REFEREE :: rat where "REFERRAL_REWARD_REFEREE = 2"
definition CLICK_REFERRAL_PERCENT :: rat where "CLICK_REFERRAL_PERCENT = 10"

definition WITHDRAWAL_AMOUNTS :: "rat list" where
  "WITHDRAWAL_AMOUNTS = [15, 25, 50, 100]"

definition flip_win_chance :: rat where "flip_win_chance = 49 / 100"
definition flip_multiplier :: rat where "flip_multiplier = 2"
definition flip_special_event_chance :: rat where "flip_special_event_chance = 15 / 1000"

definition crash_instant_crash_chance :: rat where "crash_instant_crash_chance = 6 / 10"
definition crash_low_multiplier_range :: "rat \<times> rat" where
  "crash_low_multiplier_range = (1, 11 / 10)"
definition crash_high_multiplier_chance :: rat where "crash_high_multiplier_chance = 2 / 100"
definition crash_min_high_multiplier :: rat where "crash_min_high_multiplier = 15 / 10"

definition slot_win_multiplier :: rat where "slot_win_multiplier = 20"

definition dice_multiplier :: rat where "dice_multiplier = 3"

definition jackpot_ticket_price :: rat where "jackpot_ticket_price = 1"
definition jackpot_win_chance :: rat where "jackpot_win_chance = 1 / 100"
definition jackpot_multiplier :: rat where "jackpot_multiplier = 100"

definition MIN_BETS_flip :: rat where "MIN_BETS_flip = 1"
definition MIN_BETS_dice :: rat where "MIN_BETS_dice = 1"

section \<open>database.py\<close>

text \<open>One request to the store: it raises when the schedule says so.\<close>

definition execute :: "db \<Rightarrow> bool \<times> db" where
  "execute d =
     (case outages d of
        [] \<Rightarrow> (True, d)
      | raised # rest \<Rightarrow> (\<not> raised, d\<lparr>outages := rest\<rparr>))"

text \<open>Python's \<open>str\<close> of an integer, for the texts that are stored in a column.\<close>

fun digits10 :: "nat \<Rightarrow> string" where
  "digits10 n =
     (if n < 10 then [char_of (48 + n)]
      else digits10 (n div 10) @ [char_of (48 + n mod 10)])"

declare digits10.simps [simp del]

definition str_int :: "int \<Rightarrow> string" where
  "str_int i = (if i < 0 then CHR ''-'' # digits10 (nat (- i)) else digits10 (nat i))"

definition get_user :: "int \<Rightarrow> db \<Rightarrow> user option \<times> db" where
  "get_user uid d =
     (case execute d of
        (False, d1) \<Rightarrow> (None, d1)
      | (True, d1) \<Rightarrow> (find (\<lambda>u. user_id u = uid) (users d1), d1))"

text \<open>
  \<open>.update(...).eq("user_id", uid)\<close> changes every row of that id and answers with the
  changed rows; \<open>.upsert(row, on_conflict="user_id")\<close> replaces the row of that id by
  the given one, all its columns, or inserts it.
\<close>

definition update_users :: "int \<Rightarrow> (user \<Rightarrow> user) \<Rightarrow> user list \<Rightarrow> user list" where
  "update_users uid f rows = map (\<lambda>u. if user_id u = uid then f u else u) rows"

definition upsert_user :: "user \<Rightarrow> user list \<Rightarrow> user list" where
  "upsert_user row rows =
     (case find (\<lambda>u. user_id u = user_id row) rows of
        None \<Rightarrow> rows @ [row]
      | Some old \<Rightarrow> update_users (user_id row) (\<lambda>u. row) rows)"

definition update_balance :: "int \<Rightarrow> rat \<Rightarrow> db \<Rightarrow> bool \<times> db" where
  "update_balance uid amount d =
     (case get_user uid d of
        (None, d1) \<Rightarrow> (False, d1)
      | (Some usr, d1) \<Rightarrow>
          (let new_balance = balance usr + amount in
           case execute d1 of
             (False, d2) \<Rightarrow> (False, d2)
           | (True, d2) \<Rightarrow>
               (find (\<lambda>u. user_id u = uid) (users d2) \<noteq> None,
                d2\<lparr>users := update_users uid (\<lambda>u. u\<lparr>balance := new_balance\<rparr>) (users d2)\<rparr>)))"

definition update_last_click :: "int \<Rightarrow> int \<Rightarrow> db \<Rightarrow> bool \<times> db" where
  "update_last_click uid timestamp d =
     (case execute d of
        (False, d1) \<Rightarrow> (False, d1)
      | (True, d1) \<Rightarrow>
          (find (\<lambda>u. user_id u = uid) (users d1) \<noteq> None,
           d1\<lparr>users := update_users uid (\<lambda>u. u\<lparr>last_click := Some timestamp\<rparr>) (users d1)\<rparr>))"

definition update_game_stats :: "int \<Rightarrow> rat \<Rightarrow> bool \<Rightarrow> db \<Rightarrow> bool \<times> db" where
  "update_game_stats uid wagered won d =
     (case get_user uid d of
        (None, d1) \<Rightarrow> (False, d1)
      | (Some usr, d1) \<Rightarrow>
          (let new_wagered = total_wagered usr + wagered;
               new_played = games_played usr + 1;
               updates = (\<lambda>u. if won
                    then u\<lparr>total_wagered := new_wagered, games_played := new_played,
                           games_won := games_won usr + 1\<rparr>
                    else u\<lparr>total_wagered := new_wagered, games_played := new_played\<rparr>) in
           case execute d1 of
             (False, d2) \<Rightarrow> (False, d2)
           | (True, d2) \<Rightarrow>
               (find (\<lambda>u. user_id u = uid) (users d2) \<noteq> None,
                d2\<lparr>users := update_users uid updates (users d2)\<rparr>)))"

definition add_transaction :: "int \<Rightarrow> int \<Rightarrow> rat \<Rightarrow> string \<Rightarrow> descr \<Rightarrow> db \<Rightarrow> bool \<times> db" where
  "add_transaction now uid amount type description d =
     (case execute d of
        (False, d1) \<Rightarrow> (False, d1)
      | (True, d1) \<Rightarrow>
          (True, d1\<lparr>transactions := transactions d1 @
             [\<lparr>t_user_id = uid, t_amount = amount, t_type = type,
               t_description = description, t_created_at = now\<rparr>]\<rparr>))"

definition create_user :: "int \<Rightarrow> int \<Rightarrow> string option \<Rightarrow> int option \<Rightarrow> db \<Rightarrow> bool \<times> db" where
  "create_user now uid uname ref d =
     (let user_data = \<lparr>user_id = uid,
            username = (case uname of
                          None \<Rightarrow> ''user_'' @ str_int uid
                        | Some n \<Rightarrow> if n = [] then ''user_'' @ str_int uid else n),
            referrer_id = ref, created_at = now, balance = 0, last_click = None,
            total_wagered = 0, games_played = 0, games_won = 0\<rparr> in
      case execute d of
        (False, d1) \<Rightarrow> (False, d1)
      | (True, d1) \<Rightarrow>
          (let d2 = d1\<lparr>users := upsert_user user_data (users d1)\<rparr> in
           case ref of
             None \<Rightarrow> (True, d2)
           | Some r \<Rightarrow>
               if r = 0 then (True, d2)
               else
                 (case get_user r d2 of
                    (None, d3) \<Rightarrow> (True, d3)
                  | (Some referrer, d3) \<Rightarrow>
                      (let d4 = snd (update_balance r REFERRAL_REWARD_REFERRER d3);
                           d5 = snd (add_transaction now r REFERRAL_REWARD_REFERRER
                                       ''referral_bonus'' (ForInviting uname) d4);
                           d6 = snd (update_balance uid REFERRAL_REWARD_REFEREE d5);
                           d7 = snd (add_transaction now uid REFERRAL_REWARD_REFEREE
                                       ''referral_bonus'' ForReferralSignup d6)
                       in (True, d7)))))"

text \<open>Sponsors and referrals.\<close>

definition get_sponsors :: "db \<Rightarrow> int list \<times> db" where
  "get_sponsors d =
     (case execute d of
        (False, d1) \<Rightarrow> ([], d1)
      | (True, d1) \<Rightarrow> (sponsors d1, d1))"

text \<open>
  The answer pairs every sponsor with the stored subscription flag of the user, \<open>False\<close>
  when there is no row. The dictionary built from the rows keeps the last row of a
  sponsor.
\<close>

definition get_user_sponsors_status :: "int \<Rightarrow> db \<Rightarrow> (int \<times> bool) list \<times> db" where
  "get_user_sponsors_status uid d =
     (case get_sponsors d of
        ([], d1) \<Rightarrow> ([], d1)
      | (s # ss, d1) \<Rightarrow>
          (case execute d1 of
             (False, d2) \<Rightarrow> ([], d2)
           | (True, d2) \<Rightarrow>
               (let rows = filter (\<lambda>r. us_user_id r = uid) (user_sponsors d2);
                    subscribed_ids = map_of (rev (map (\<lambda>r. (us_sponsor_id r, us_is_subscribed r)) rows))
                in (map (\<lambda>sp. (sp, case subscribed_ids sp of None \<Rightarrow> False | Some b \<Rightarrow> b)) (s # ss),
                    d2))))"

definition update_user_sponsor_status :: "int \<Rightarrow> int \<Rightarrow> int \<Rightarrow> bool \<Rightarrow> db \<Rightarrow> bool \<times> db" where
  "update_user_sponsor_status now uid sid is_subscribed d =
     (case execute d of
        (False, d1) \<Rightarrow> (False, d1)
      | (True, d1) \<Rightarrow>
          (let row = \<lparr>us_user_id = uid, us_sponsor_id = sid,
                      us_is_subscribed = is_subscribed, us_last_check = now\<rparr>;
               same = (\<lambda>r. us_user_id r = uid \<and> us_sponsor_id r = sid) in
           (True, d1\<lparr>user_sponsors :=
              (case find same (user_sponsors d1) of
                 None \<Rightarrow> user_sponsors d1 @ [row]
               | Some old \<Rightarrow> map (\<lambda>r. if same r then row else r) (user_sponsors d1))\<rparr>)))"

text \<open>The loop of \<open>get_user_referrals\<close> over the invited users.\<close>

fun count_active :: "user list \<Rightarrow> db \<Rightarrow> int \<Rightarrow> int \<times> db" where
  "count_active [] d active = (active, d)"
| "count_active (referral # rest) d active =
     (case get_user_sponsors_status (user_id referral) d of
        (referral_status, d1) \<Rightarrow>
          count_active rest d1 (if list_ex snd referral_status then active + 1 else active))"

definition get_user_referrals :: "int \<Rightarrow> db \<Rightarrow> (int \<times> int) \<times> db" where
  "get_user_referrals uid d =
     (case execute d of
        (False, d1) \<Rightarrow> ((0, 0), d1)
      | (True, d1) \<Rightarrow>
          (let rows = filter (\<lambda>u. referrer_id u = Some uid) (users d1);
               total = int (length rows)
           in case count_active rows d1 0 of (active, d2) \<Rightarrow> ((total, active), d2)))"

text \<open>
  The store numbers the rows of the withdrawals table itself; rows are never deleted,
  so the next number is the number of rows plus one.
\<close>

definition create_withdrawal :: "int \<Rightarrow> int \<Rightarrow> rat \<Rightarrow> db \<Rightarrow> withdrawal option \<times> db" where
  "create_withdrawal now uid amount d =
     (case execute d of
        (False, d1) \<Rightarrow> (None, d1)
      | (True, d1) \<Rightarrow>
          (let row = \<lparr>w_id = int (length (withdrawals d1)) + 1, w_user_id = uid,
                      w_amount = amount, w_status = ''pending'', w_created_at = now\<rparr>
           in (Some row, d1\<lparr>withdrawals := withdrawals d1 @ [row]\<rparr>)))"

section \<open>games.py\<close>

text \<open>
  The random source is the sequence \<open>g\<close> of the values that successive calls of
  \<open>random.random()\<close> return, each in the interval from 0 to 1 (1 excluded), and the
  position \<open>k\<close> of the next one. Every function returns the position it leaves.
  \<open>random.uniform(a, b)\<close> is \<open>a + (b - a) * random()\<close>; a uniform choice among \<open>n\<close>
  values takes the integer part of \<open>n\<close> times a draw.
\<close>

type_synonym rng = "nat \<Rightarrow> rat"

definition random_random :: "rng \<Rightarrow> nat \<Rightarrow> rat \<times> nat" where
  "random_random g k = (g k, Suc k)"

definition random_uniform :: "rat \<Rightarrow> rat \<Rightarrow> rng \<Rightarrow> nat \<Rightarrow> rat \<times> nat" where
  "random_uniform a b g k = (a + (b - a) * g k, Suc k)"

definition randbelow :: "nat \<Rightarrow> rng \<Rightarrow> nat \<Rightarrow> nat \<times> nat" where
  "randbelow n g k = (nat \<lfloor>rat_of_nat n * g k\<rfloor>, Suc k)"

datatype symbol = Banana | Monkey | Star | Gem | Target | MoneyBag | SlotMachine | Clover

datatype result_text =
    FlipSpecialEvent
  | FlipWon string rat
  | FlipLost string rat
  | CrashInstant
  | CrashHigh rat
  | CrashCashedOut rat
  | CrashCrashed rat
  | SlotJackpot symbol rat
  | SlotWon symbol rat
  | SlotLost symbol symbol symbol
  | DiceWon int rat
  | DiceLost int int rat
  | JackpotWon rat
  | JackpotLost

definition play_flip :: "rat \<Rightarrow> string \<Rightarrow> rng \<Rightarrow> nat \<Rightarrow> (bool \<times> rat \<times> result_text) \<times> nat" where
  "play_flip bet choice g k =
     (case random_random g k of
        (r1, k1) \<Rightarrow>
          if r1 < flip_special_event_chance then ((False, 0, FlipSpecialEvent), k1)
          else
            (case random_random g k1 of
               (r2, k2) \<Rightarrow>
                 (let win = (r2 < flip_win_chance) in
                  if win then
                    (let win_amount = bet * flip_multiplier
                     in ((True, win_amount, FlipWon choice win_amount), k2))
                  else
                    ((False, 0,
                      FlipLost (if choice = ''heads'' then ''tails''
                                else if choice = ''tails'' then ''heads'' else ''other'') bet),
                     k2))))"

definition play_crash :: "rat \<Rightarrow> rng \<Rightarrow> nat \<Rightarrow> (bool \<times> rat \<times> result_text) \<times> nat" where
  "play_crash bet g k =
     (case random_random g k of
        (r1, k1) \<Rightarrow>
          if r1 < crash_instant_crash_chance then ((False, 0, CrashInstant), k1)
          else
            (case random_random g k1 of
               (r2, k2) \<Rightarrow>
                 if r2 < crash_high_multiplier_chance then
                   (case random_uniform crash_min_high_multiplier 5 g k2 of
                      (multiplier, k3) \<Rightarrow>
                        ((True, bet * multiplier, CrashHigh multiplier), k3))
                 else
                   (case random_uniform (fst crash_low_multiplier_range)
                           (snd crash_low_multiplier_range) g k2 of
                      (multiplier, k3) \<Rightarrow>
                        if multiplier > 1 then
                          (case random_random g k3 of
                             (r3, k4) \<Rightarrow>
                               if r3 < 8 / 10
                               then ((True, bet * multiplier, CrashCashedOut multiplier), k4)
                               else ((False, 0, CrashCrashed multiplier), k4))
                        else ((False, 0, CrashCrashed multiplier), k3))))"

definition symbols :: "symbol list" where
  "symbols = [Banana, Monkey, Star, Gem, Target, MoneyBag, SlotMachine, Clover]"

definition random_choice :: "rng \<Rightarrow> nat \<Rightarrow> symbol \<times> nat" where
  "random_choice g k = (case randbelow (length symbols) g k of (i, k1) \<Rightarrow> (symbols ! i, k1))"

definition play_slot :: "rat \<Rightarrow> rng \<Rightarrow> nat \<Rightarrow> (bool \<times> rat \<times> result_text \<times> symbol list) \<times> nat" where
  "play_slot bet g k =
     (case random_choice g k of
        (s0, k1) \<Rightarrow>
          (case random_choice g k1 of
             (s1, k2) \<Rightarrow>
               (case random_choice g k2 of
                  (s2, k3) \<Rightarrow>
                    (let reels = [s0, s1, s2] in
                     if s0 = s1 \<and> s1 = s2 then
                       (if s0 = Banana
                        then ((True, bet * 50, SlotJackpot s0 (bet * 50), reels), k3)
                        else ((True, bet * slot_win_multiplier,
                               SlotWon s0 (bet * slot_win_multiplier), reels), k3))
                     else ((False, 0, SlotLost s0 s1 s2, reels), k3)))))"

definition play_dice :: "rat \<Rightarrow> int \<Rightarrow> rng \<Rightarrow> nat \<Rightarrow> (bool \<times> rat \<times> result_text) \<times> nat" where
  "play_dice bet user_number g k =
     (case randbelow 6 g k of
        (i, k1) \<Rightarrow>
          (let dice_roll = 1 + int i in
           if user_number = dice_roll then
             (let win_amount = bet * dice_multiplier
              in ((True, win_amount, DiceWon dice_roll win_amount), k1))
           else ((False, 0, DiceLost dice_roll user_number bet), k1)))"

definition play_jackpot :: "rat \<Rightarrow> rng \<Rightarrow> nat \<Rightarrow> (bool \<times> rat \<times> result_text) \<times> nat" where
  "play_jackpot bet g k =
     (case random_random g k of
        (r, k1) \<Rightarrow>
          if r < jackpot_win_chance then
            (let win_amount = bet * jackpot_multiplier
             in ((True, win_amount, JackpotWon win_amount), k1))
          else ((False, 0, JackpotLost), k1))"

section \<open>bot.py\<close>

text \<open>
  What a handler sends back. A handler takes the identity of the sender and the parsed
  content of the message or button, the store and the random source, and returns its
  reply with the store (and the random position) it leaves. All time stamps written
  while one update is handled come from the clock reading \<open>now\<close>.
\<close>

datatype jackpot_report = TicketsWon int rat | NoTicketWon

datatype reply =
    TryStart
  | Unhandled
  | ErrorOccurred
  | NoReply
  | SponsorsMessage "int list"
  | MainMenu rat
  | SubscribeFirst
  | Wait int
  | ClickDone rat rat
  | EnterNumber
  | MinimumBet rat
  | InsufficientFunds rat
  | FlipResult result_text rat
  | CrashResult rat result_text rat
  | SlotResult rat "symbol list" result_text rat
  | DiceResult rat int result_text rat
  | JackpotResult int rat jackpot_report rat
  | AmountError
  | NeedReferrals int
  | WithdrawalFailed
  | WithdrawalApproved rat int

definition check_subscriptions :: "int \<Rightarrow> db \<Rightarrow> bool \<times> db" where
  "check_subscriptions uid d =
     (case get_user_sponsors_status uid d of
        (sponsors_status, d1) \<Rightarrow> (list_all snd sponsors_status, d1))"

definition show_main_menu :: "int \<Rightarrow> db \<Rightarrow> reply \<times> db" where
  "show_main_menu uid d =
     (case get_user uid d of
        (None, d1) \<Rightarrow> (MainMenu 0, d1)
      | (Some usr, d1) \<Rightarrow> (MainMenu (balance usr), d1))"

definition show_sponsors_message :: "int \<Rightarrow> db \<Rightarrow> reply \<times> db" where
  "show_sponsors_message uid d =
     (case get_sponsors d of
        ([], d1) \<Rightarrow> show_main_menu uid d1
      | (s # ss, d1) \<Rightarrow> (SponsorsMessage (s # ss), d1))"

text \<open>
  The argument of \<open>/start\<close>: absent, not an integer, or an integer. \<open>uname\<close> is the
  sender's user name or, without one, first name.
\<close>

datatype start_args = NoArgs | BadArgs | IntArgs int

definition cmd_start :: "int \<Rightarrow> int \<Rightarrow> string option \<Rightarrow> start_args \<Rightarrow> db \<Rightarrow> reply \<times> db" where
  "cmd_start now uid uname args d =
     (let ref = (case args of
                   NoArgs \<Rightarrow> None
                 | BadArgs \<Rightarrow> None
                 | IntArgs r \<Rightarrow> if r = uid then None else Some r);
          d1 = snd (create_user now uid uname ref d)
      in case check_subscriptions uid d1 of
           (False, d2) \<Rightarrow> show_sponsors_message uid d2
         | (True, d2) \<Rightarrow> show_main_menu uid d2)"

definition handle_click :: "int \<Rightarrow> int \<Rightarrow> string option \<Rightarrow> db \<Rightarrow> reply \<times> db" where
  "handle_click now uid uname d =
     (case check_subscriptions uid d of
        (False, d1) \<Rightarrow> (SubscribeFirst, d1)
      | (True, d1) \<Rightarrow>
          (case get_user uid d1 of
             (None, d2) \<Rightarrow> (TryStart, d2)
           | (Some usr, d2) \<Rightarrow>
               (let current_time = now;
                    remaining = (case last_click usr of
                                   None \<Rightarrow> None
                                 | Some lc \<Rightarrow>
                                     if lc \<noteq> 0 \<and> current_time - lc < CLICK_COOLDOWN
                                     then Some (CLICK_COOLDOWN - (current_time - lc))
                                     else None)
                in case remaining of
                     Some secs \<Rightarrow> (Wait secs, d2)
                   | None \<Rightarrow>
                     (let reward = CLICK_REWARD;
                          d3 = snd (update_balance uid reward d2);
                          d4 = snd (update_last_click uid current_time d3);
                          d5 = snd (add_transaction now uid reward ''click'' Clicker d4);
                          d7 = (case referrer_id usr of
                                  None \<Rightarrow> d5
                                | Some r \<Rightarrow>
                                    if r = 0 then d5
                                    else
                                      (let referral_bonus = reward * (CLICK_REFERRAL_PERCENT / 100);
                                           d6 = snd (update_balance r referral_bonus d5)
                                       in snd (add_transaction now r referral_bonus
                                                 ''referral_income''
                                                 (ClickShare (case uname of
                                                                None \<Rightarrow> str_int uid
                                                              | Some n \<Rightarrow> if n = [] then str_int uid else n))
                                                 d6)))
                      in case get_user uid d7 of
                           (None, d8) \<Rightarrow> (Unhandled, d8)
                         | (Some usr', d8) \<Rightarrow> (ClickDone reward (balance usr'), d8)))))"

text \<open>
  The bet handlers. \<open>bet\<close> is the number read from the message text or the button,
  \<open>None\<close> when it is not a number. \<open>choice\<close> and \<open>game_type\<close> are what the conversation
  state holds.
\<close>

definition handle_bet_input ::
  "int \<Rightarrow> int \<Rightarrow> rat option \<Rightarrow> string \<Rightarrow> string \<Rightarrow> db \<Rightarrow> rng \<Rightarrow> nat \<Rightarrow> reply \<times> db \<times> nat" where
  "handle_bet_input now uid bet_text choice game_type d g k =
     (case get_user uid d of
        (None, d1) \<Rightarrow> (TryStart, d1, k)
      | (Some usr, d1) \<Rightarrow>
          (case bet_text of
             None \<Rightarrow> (EnterNumber, d1, k)
           | Some bet \<Rightarrow>
               (let min_bet = MIN_BETS_flip in
                if bet < min_bet then (MinimumBet min_bet, d1, k)
                else if balance usr < bet then (InsufficientFunds (balance usr), d1, k)
                else if game_type = ''flip'' then
                  (case play_flip bet choice g k of
                     ((win, amount, result), k1) \<Rightarrow>
                       (let d4 = (if win then
                              (let d2 = snd (update_balance uid (amount - bet) d1);
                                   d3 = snd (add_transaction now uid (amount - bet) ''game_win'' FlipWinDescr d2)
                               in snd (update_game_stats uid bet True d3))
                            else
                              (let d2 = snd (update_balance uid (- bet) d1);
                                   d3 = snd (add_transaction now uid (- bet) ''game_lose'' FlipLoseDescr d2)
                               in snd (update_game_stats uid bet False d3)))
                        in case get_user uid d4 of
                             (None, d5) \<Rightarrow> (ErrorOccurred, d5, k1)
                           | (Some usr', d5) \<Rightarrow> (FlipResult result (balance usr'), d5, k1)))
                else (NoReply, d1, k))))"

text \<open>
  In Crash and Slot the description of a win holds \<open>amount / bet\<close>, computed between
  the balance update and the insertion of the transaction: with a bet of zero the
  division raises there.
\<close>

definition handle_crash_play ::
  "int \<Rightarrow> int \<Rightarrow> rat option \<Rightarrow> db \<Rightarrow> rng \<Rightarrow> nat \<Rightarrow> reply \<times> db \<times> nat" where
  "handle_crash_play now uid bet_data d g k =
     (case get_user uid d of
        (None, d1) \<Rightarrow> (TryStart, d1, k)
      | (Some usr, d1) \<Rightarrow>
          (case bet_data of
             None \<Rightarrow> (ErrorOccurred, d1, k)
           | Some bet \<Rightarrow>
               if balance usr < bet then (InsufficientFunds (balance usr), d1, k)
               else
                 (case play_crash bet g k of
                    ((win, amount, result), k1) \<Rightarrow>
                      if win \<and> bet = 0
                      then (ErrorOccurred, snd (update_balance uid (amount - bet) d1), k1)
                      else
                        (let d4 = (if win then
                               (let d2 = snd (update_balance uid (amount - bet) d1);
                                    d3 = snd (add_transaction now uid (amount - bet) ''game_win''
                                                (CrashWinDescr (amount / bet)) d2)
                                in snd (update_game_stats uid bet True d3))
                             else
                               (let d2 = snd (update_balance uid (- bet) d1);
                                    d3 = snd (add_transaction now uid (- bet) ''game_lose'' CrashLoseDescr d2)
                                in snd (update_game_stats uid bet False d3)))
                         in case get_user uid d4 of
                              (None, d5) \<Rightarrow> (ErrorOccurred, d5, k1)
                            | (Some usr', d5) \<Rightarrow> (CrashResult bet result (balance usr'), d5, k1)))))"

definition handle_slot_play ::
  "int \<Rightarrow> int \<Rightarrow> rat option \<Rightarrow> db \<Rightarrow> rng \<Rightarrow> nat \<Rightarrow> reply \<times> db \<times> nat" where
  "handle_slot_play now uid bet_data d g k =
     (case get_user uid d of
        (None, d1) \<Rightarrow> (TryStart, d1, k)
      | (Some usr, d1) \<Rightarrow>
          (case bet_data of
             None \<Rightarrow> (ErrorOccurred, d1, k)
           | Some bet \<Rightarrow>
               if balance usr < bet then (InsufficientFunds (balance usr), d1, k)
               else
                 (case play_slot bet g k of
                    ((win, amount, result, reels), k1) \<Rightarrow>
                      if win \<and> bet = 0
                      then (ErrorOccurred, snd (update_balance uid (amount - bet) d1), k1)
                      else
                        (let d4 = (if win then
                               (let d2 = snd (update_balance uid (amount - bet) d1);
                                    d3 = snd (add_transaction now uid (amount - bet) ''game_win''
                                                (SlotWinDescr (amount / bet)) d2)
                                in snd (update_game_stats uid bet True d3))
                             else
                               (let d2 = snd (update_balance uid (- bet) d1);
                                    d3 = snd (add_transaction now uid (- bet) ''game_lose'' SlotLoseDescr d2)
                                in snd (update_game_stats uid bet False d3)))
                         in case get_user uid d4 of
                              (None, d5) \<Rightarrow> (ErrorOccurred, d5, k1)
                            | (Some usr', d5) \<Rightarrow> (SlotResult bet reels result (balance usr'), d5, k1)))))"

definition handle_dice_bet ::
  "int \<Rightarrow> int \<Rightarrow> rat option \<Rightarrow> int \<Rightarrow> db \<Rightarrow> rng \<Rightarrow> nat \<Rightarrow> reply \<times> db \<times> nat" where
  "handle_dice_bet now uid bet_text user_number d g k =
     (case get_user uid d of
        (None, d1) \<Rightarrow> (TryStart, d1, k)
      | (Some usr, d1) \<Rightarrow>
          (case bet_text of
             None \<Rightarrow> (EnterNumber, d1, k)
           | Some bet \<Rightarrow>
               (let min_bet = MIN_BETS_dice in
                if bet < min_bet then (MinimumBet min_bet, d1, k)
                else if balance usr < bet then (InsufficientFunds (balance usr), d1, k)
                else
                  (case play_dice bet user_number g k of
                     ((win, amount, result), k1) \<Rightarrow>
                       (let d4 = (if win then
                              (let d2 = snd (update_balance uid (amount - bet) d1);
                                   d3 = snd (add_transaction now uid (amount - bet) ''game_win'' DiceWinDescr d2)
                               in snd (update_game_stats uid bet True d3))
                            else
                              (let d2 = snd (update_balance uid (- bet) d1);
                                   d3 = snd (add_transaction now uid (- bet) ''game_lose'' DiceLoseDescr d2)
                               in snd (update_game_stats uid bet False d3)))
                        in case get_user uid d4 of
                             (None, d5) \<Rightarrow> (ErrorOccurred, d5, k1)
                           | (Some usr', d5) \<Rightarrow>
                               (DiceResult bet user_number result (balance usr'), d5, k1))))))"

text \<open>
  Jackpot: \<open>int(bet)\<close> tickets (the fraction is cut off), one call of \<open>play_jackpot\<close>
  with the unit price for each, in a loop that adds up the winnings and counts the
  winning tickets.
\<close>

definition py_int :: "rat \<Rightarrow> int" where
  "py_int x = (if 0 \<le> x then \<lfloor>x\<rfloor> else \<lceil>x\<rceil>)"

fun jackpot_loop :: "nat \<Rightarrow> rng \<Rightarrow> nat \<Rightarrow> rat \<Rightarrow> int \<Rightarrow> rat \<times> int \<times> nat" where
  "jackpot_loop 0 g k total_win win_tickets = (total_win, win_tickets, k)"
| "jackpot_loop (Suc n) g k total_win win_tickets =
     (case play_jackpot 1 g k of
        ((win, amount, result), k1) \<Rightarrow>
          if win then jackpot_loop n g k1 (total_win + amount) (win_tickets + 1)
          else jackpot_loop n g k1 total_win win_tickets)"

definition handle_jackpot_play ::
  "int \<Rightarrow> int \<Rightarrow> rat option \<Rightarrow> db \<Rightarrow> rng \<Rightarrow> nat \<Rightarrow> reply \<times> db \<times> nat" where
  "handle_jackpot_play now uid bet_data d g k =
     (case get_user uid d of
        (None, d1) \<Rightarrow> (TryStart, d1, k)
      | (Some usr, d1) \<Rightarrow>
          (case bet_data of
             None \<Rightarrow> (ErrorOccurred, d1, k)
           | Some bet \<Rightarrow>
               (let tickets = py_int bet in
                if balance usr < bet then (InsufficientFunds (balance usr), d1, k)
                else
                  (let d2 = snd (update_balance uid (- bet) d1);
                       d3 = snd (add_transaction now uid (- bet) ''game_lose'' (JackpotPurchase tickets) d2);
                       d4 = snd (update_game_stats uid bet False d3)
                   in case jackpot_loop (nat tickets) g k 0 0 of
                        (total_win, win_tickets, k1) \<Rightarrow>
                          (let d7 = (if total_win > 0 then
                                 (let d5 = snd (update_balance uid total_win d4);
                                      d6 = snd (add_transaction now uid total_win ''game_win''
                                                  (JackpotWinDescr total_win) d5)
                                  in snd (update_game_stats uid 0 True d6))
                               else d4)
                           in case get_user uid d7 of
                                (None, d8) \<Rightarrow> (ErrorOccurred, d8, k1)
                              | (Some usr', d8) \<Rightarrow>
                                  (JackpotResult tickets bet
                                     (if win_tickets > 0 then TicketsWon win_tickets total_win
                                      else NoTicketWon)
                                     (balance usr'), d8, k1))))))"

text \<open>The withdrawal menu offers one button for each configured amount.\<close>

definition handle_withdraw_menu :: "int \<Rightarrow> db \<Rightarrow> (reply + rat list) \<times> db" where
  "handle_withdraw_menu uid d =
     (case check_subscriptions uid d of
        (False, d1) \<Rightarrow> (Inl SubscribeFirst, d1)
      | (True, d1) \<Rightarrow> (Inr WITHDRAWAL_AMOUNTS, d1))"

definition handle_withdraw :: "int \<Rightarrow> int \<Rightarrow> rat option \<Rightarrow> db \<Rightarrow> reply \<times> db" where
  "handle_withdraw now uid amount_data d =
     (case amount_data of
        None \<Rightarrow> (AmountError, d)
      | Some amount \<Rightarrow>
          (case get_user uid d of
             (None, d1) \<Rightarrow> (TryStart, d1)
           | (Some usr, d1) \<Rightarrow>
               if balance usr < amount then (InsufficientFunds (balance usr), d1)
               else
                 (case get_user_referrals uid d1 of
                    ((total_ref, active_ref), d2) \<Rightarrow>
                      if active_ref < 3 then (NeedReferrals active_ref, d2)
                      else
                        (case create_withdrawal now uid amount d2 of
                           (None, d3) \<Rightarrow> (WithdrawalFailed, d3)
                         | (Some wd, d3) \<Rightarrow>
                             (let d4 = snd (update_balance uid (- amount) d3);
                                  d5 = snd (add_transaction now uid (- amount) ''withdrawal''
                                              (WithdrawalNo (w_id wd)) d4)
                              in (WithdrawalApproved amount (w_id wd), d5))))))"

section \<open>Observations\<close>

text \<open>The row of an account, as \<open>get_user\<close> reads it from a store that answers.\<close>

definition find_user :: "int \<Rightarrow> db \<Rightarrow> user option" where
  "find_user uid d = find (\<lambda>u. user_id u = uid) (users d)"

text \<open>The sum of the signed amounts of the transactions recorded for an account.\<close>

definition ledger_sum :: "int \<Rightarrow> db \<Rightarrow> rat" where
  "ledger_sum uid d = sum_list (map t_amount (filter (\<lambda>t. t_user_id t = uid) (transactions d)))"

text \<open>The number of active referrals that \<open>handle_withdraw\<close> compares with 3.\<close>

definition active_referrals :: "int \<Rightarrow> db \<Rightarrow> int" where
  "active_referrals uid d = snd (fst (get_user_referrals uid d))"

text \<open>
  The tickets that win among \<open>n\<close> tickets played from position \<open>k\<close> of the random
  source: ticket \<open>i\<close> wins when its own draw is below the win chance.
\<close>

definition winning_tickets :: "rng \<Rightarrow> nat \<Rightarrow> nat \<Rightarrow> nat" where
  "winning_tickets g k n = length (filter (\<lambda>i. g (k + i) < jackpot_win_chance) [0..<n])"

text \<open>
  Conservation: the balance of every account is the sum of its transactions.
  \<open>owed uid a\<close> is the state between a balance update by \<open>a\<close> and the insertion of
  its transaction: the balance of \<open>uid\<close> is ahead of its transactions by \<open>a\<close>.
\<close>

definition owed :: "int \<Rightarrow> rat \<Rightarrow> db \<Rightarrow> bool" where
  "owed uid a d =
     list_all (\<lambda>u. balance u = ledger_sum (user_id u) d + (if user_id u = uid then a else 0))
       (users d)"

definition conserved :: "db \<Rightarrow> bool" where
  "conserved d = list_all (\<lambda>u. balance u = ledger_sum (user_id u) d) (users d)"

text \<open>
  Two stores hold the same tables: they differ at most in the schedule of outages.
\<close>

definition same_tables :: "db \<Rightarrow> db \<Rightarrow> bool" where
  "same_tables d d' =
     (users d' = users d \<and> transactions d' = transactions d \<and> withdrawals d' = withdrawals d \<and>
      sponsors d' = sponsors d \<and> user_sponsors d' = user_sponsors d)"

section \<open>Example stores\<close>

text \<open>
  A store with account 1 (balance 20) and the accounts 2, 3 and 4 that account 1
  invited, each subscribed to the one sponsor; and random sources for the examples.
\<close>

definition demo_user :: "int \<Rightarrow> int option \<Rightarrow> rat \<Rightarrow> user" where
  "demo_user uid ref bal =
     \<lparr>user_id = uid, username = ''u'', referrer_id = ref, created_at = 0, balance = bal,
      last_click = None, total_wagered = 0, games_played = 0, games_won = 0\<rparr>"

definition demo_db :: db where
  "demo_db =
     \<lparr>users = [demo_user 1 None 20, demo_user 2 (Some 1) 0, demo_user 3 (Some 1) 0,
               demo_user 4 (Some 1) 0],
      transactions = [], withdrawals = [], sponsors = [7],
      user_sponsors =
        [\<lparr>us_user_id = 2, us_sponsor_id = 7, us_is_subscribed = True, us_last_check = 0\<rparr>,
         \<lparr>us_user_id = 3, us_sponsor_id = 7, us_is_subscribed = True, us_last_check = 0\<rparr>,
         \<lparr>us_user_id = 4, us_sponsor_id = 7, us_is_subscribed = True, us_last_check = 0\<rparr>],
      outages = []\<rparr>"

definition second_draw_low :: rng where
  "second_draw_low i = (if i = 1 then 0 else 1 / 2)"

text \<open>
  Stores reached from the empty store by the handlers: account 1 starts the bot and
  clicks once; account 1 starts the bot and account 2 starts it with the referral
  link of account 1.
\<close>

definition empty_db :: db where
  "empty_db = \<lparr>users = [], transactions = [], withdrawals = [], sponsors = [],
                user_sponsors = [], outages = []\<rparr>"

definition after_click :: db where
  "after_click =
     snd (handle_click 10 1 (Some ''ann'')
       (snd (cmd_start 0 1 (Some ''ann'') NoArgs empty_db)))"

definition invited :: db where
  "invited =
     snd (cmd_start 5 2 (Some ''bob'') (IntArgs 1)
       (snd (cmd_start 0 1 (Some ''ann'') NoArgs empty_db)))"

text \<open>
  An account with balance 0.2, a random source without luck, and the store of the
  first example with an outage at the balance update of a withdrawal (requests 10
  and 11) or at the insertion of its row (request 9).
\<close>

definition poor_db :: db where
  "poor_db = \<lparr>users = [demo_user 1 None (1 / 5)], transactions = [], withdrawals = [],
               sponsors = [], user_sponsors = [], outages = []\<rparr>"

definition no_luck :: rng where
  "no_luck i = 1 / 2"

definition debit_outage_db :: db where
  "debit_outage_db = demo_db\<lparr>outages := replicate 9 False @ [True, True]\<rparr>"

definition row_outage_db :: db where
  "row_outage_db = demo_db\<lparr>outages := replicate 8 False @ [True]\<rparr>"

section \<open>A store that answers every request\<close>

lemma execute_ok: "outages d = [] \<Longrightarrow> execute d = (True, d)"
  by (simp add: execute_def)

lemma get_user_ok: "outages d = [] \<Longrightarrow> get_user uid d = (find_user uid d, d)"
  by (simp add: get_user_def execute_ok find_user_def)

lemma find_update_users:
  "(\<And>u. user_id (f u) = user_id u) \<Longrightarrow>
   find (\<lambda>u. user_id u = uid') (update_users uid f rows) =
     (if uid' = uid then map_option f (find (\<lambda>u. user_id u = uid') rows)
      else find (\<lambda>u. user_id u = uid') rows)"
  by (induction rows) (auto simp: update_users_def)

lemma update_balance_ok:
  "outages d = [] \<Longrightarrow>
   update_balance uid amount d =
     (case find_user uid d of
        None \<Rightarrow> (False, d)
      | Some usr \<Rightarrow>
          (True, d\<lparr>users := update_users uid (\<lambda>u. u\<lparr>balance := balance usr + amount\<rparr>) (users d)\<rparr>))"
  by (simp add: update_balance_def get_user_ok execute_ok find_user_def split: option.split)

lemma add_transaction_ok:
  "outages d = [] \<Longrightarrow>
   add_transaction now uid amount type description d =
     (True, d\<lparr>transactions := transactions d @
        [\<lparr>t_user_id = uid, t_amount = amount, t_type = type,
          t_description = description, t_created_at = now\<rparr>]\<rparr>)"
  by (simp add: add_transaction_def execute_ok)

lemma update_game_stats_ok:
  "outages d = [] \<Longrightarrow>
   update_game_stats uid wagered won d =
     (case find_user uid d of
        None \<Rightarrow> (False, d)
      | Some usr \<Rightarrow>
     (True, d\<lparr>users := update_users uid
        (\<lambda>u. if won
           then u\<lparr>total_wagered := total_wagered usr + wagered,
                  games_played := games_played usr + 1, games_won := games_won usr + 1\<rparr>
           else u\<lparr>total_wagered := total_wagered usr + wagered,
                  games_played := games_played usr + 1\<rparr>) (users d)\<rparr>))"
  by (simp add: update_game_stats_def get_user_ok execute_ok Let_def find_user_def split: option.split)

lemma find_user_update:
  "(\<And>u. user_id (f u) = user_id u) \<Longrightarrow>
   find_user uid' (d\<lparr>users := update_users uid f (users d)\<rparr>) =
     (if uid' = uid then map_option f (find_user uid' d) else find_user uid' d)"
  by (simp add: find_user_def find_update_users)

lemma find_user_users:
  "(\<And>u. user_id (f u) = user_id u) \<Longrightarrow>
   find_user uid' (d\<lparr>users := update_users uid f rows\<rparr>) =
     (if uid' = uid then map_option f (find (\<lambda>u. user_id u = uid') rows)
      else find (\<lambda>u. user_id u = uid') rows)"
  by (simp add: find_user_def find_update_users)

lemma find_user_transactions [simp]:
  "find_user uid (d\<lparr>transactions := ts\<rparr>) = find_user uid d"
  by (simp add: find_user_def)

lemma find_user_withdrawals [simp]:
  "find_user uid (d\<lparr>withdrawals := ws\<rparr>) = find_user uid d"
  by (simp add: find_user_def)

lemma find_replaced_other:
  "uid' \<noteq> user_id row \<Longrightarrow>
   find (\<lambda>u. user_id u = uid') (update_users (user_id row) (\<lambda>u. row) rows) =
     find (\<lambda>u. user_id u = uid') rows"
  by (induction rows) (auto simp: update_users_def)

lemma find_replaced_same:
  "find (\<lambda>u. user_id u = user_id row) rows = Some old \<Longrightarrow>
   find (\<lambda>u. user_id u = user_id row) (update_users (user_id row) (\<lambda>u. row) rows) = Some row"
  by (induction rows) (auto simp: update_users_def split: if_splits)

lemma find_appended:
  "find P (rows @ [row]) = (case find P rows of None \<Rightarrow> (if P row then Some row else None) | Some u \<Rightarrow> Some u)"
  by (induction rows) auto

lemma find_upsert_user:
  "find (\<lambda>u. user_id u = uid') (upsert_user row rows) =
     (if uid' = user_id row then Some row else find (\<lambda>u. user_id u = uid') rows)"
proof (cases "find (\<lambda>u. user_id u = user_id row) rows")
  case None
  then show ?thesis
    by (auto simp: upsert_user_def find_appended split: option.split)
next
  case (Some old)
  then show ?thesis
    by (auto simp: upsert_user_def find_replaced_other find_replaced_same)
qed

lemma create_user_ok:
  assumes "outages d = []" and "A \<noteq> B" and "A \<noteq> 0"
  shows "(case create_user now B uname (Some A) d of
     (ok, d') \<Rightarrow>
       ok \<and>
       (case find_user A d of
          Some a \<Rightarrow>
            find_user A d' = Some (a\<lparr>balance := balance a + REFERRAL_REWARD_REFERRER\<rparr>) \<and>
            map_option balance (find_user B d') = Some REFERRAL_REWARD_REFEREE \<and>
            map_option referrer_id (find_user B d') = Some (Some A) \<and>
            transactions d' = transactions d @
              [\<lparr>t_user_id = A, t_amount = REFERRAL_REWARD_REFERRER, t_type = ''referral_bonus'',
                t_description = ForInviting uname, t_created_at = now\<rparr>,
               \<lparr>t_user_id = B, t_amount = REFERRAL_REWARD_REFEREE, t_type = ''referral_bonus'',
                t_description = ForReferralSignup, t_created_at = now\<rparr>]
        | None \<Rightarrow>
            find_user A d' = None \<and>
            map_option balance (find_user B d') = Some 0 \<and>
            map_option referrer_id (find_user B d') = Some (Some A) \<and>
            transactions d' = transactions d))"
  using assms
  by (simp add: create_user_def execute_ok get_user_ok update_balance_ok add_transaction_ok
        find_user_def find_update_users find_upsert_user Let_def split: option.split)

lemma play_jackpot_unit:
  "play_jackpot 1 g k =
     ((g k < jackpot_win_chance, (if g k < jackpot_win_chance then 100 else 0),
       (if g k < jackpot_win_chance then JackpotWon 100 else JackpotLost)), Suc k)"
  by (simp add: play_jackpot_def random_random_def jackpot_multiplier_def)

lemma winning_tickets_Suc:
  "winning_tickets g k (Suc n) =
     (if g k < jackpot_win_chance then 1 else 0) + winning_tickets g (Suc k) n"
proof -
  have "[0..<Suc n] = 0 # map Suc [0..<n]"
    by (simp add: upt_conv_Cons map_Suc_upt del: upt_Suc)
  then show ?thesis
    by (simp add: winning_tickets_def filter_map comp_def del: upt_Suc)
qed

lemma jackpot_loop_acc:
  "jackpot_loop n g k total_win win_tickets =
     (total_win + 100 * rat_of_nat (winning_tickets g k n),
      win_tickets + int (winning_tickets g k n), k + n)"
proof (induction n arbitrary: k total_win win_tickets)
  case 0
  show ?case by (simp add: winning_tickets_def)
next
  case (Suc n)
  show ?case
    by (simp add: play_jackpot_unit Suc.IH winning_tickets_Suc algebra_simps)
qed

lemma handle_jackpot_play_ok:
  assumes "outages d = []" and "find_user uid d = Some usr" and "bet \<le> balance usr"
  shows "(case handle_jackpot_play now uid (Some bet) d g k of
           (r, d', k') \<Rightarrow>
         r = JackpotResult (py_int bet) bet
              (if 0 < winning_tickets g k (nat (py_int bet))
               then TicketsWon (int (winning_tickets g k (nat (py_int bet))))
                      (100 * rat_of_nat (winning_tickets g k (nat (py_int bet))))
               else NoTicketWon)
              (balance usr - bet + 100 * rat_of_nat (winning_tickets g k (nat (py_int bet)))) \<and>
         k' = k + nat (py_int bet) \<and>
         find_user uid d' = Some (usr\<lparr>
            balance := balance usr - bet + 100 * rat_of_nat (winning_tickets g k (nat (py_int bet))),
            total_wagered := total_wagered usr + bet,
            games_played := games_played usr + (if 0 < winning_tickets g k (nat (py_int bet)) then 2 else 1),
            games_won := games_won usr + (if 0 < winning_tickets g k (nat (py_int bet)) then 1 else 0)\<rparr>) \<and>
         transactions d' = transactions d @
            \<lparr>t_user_id = uid, t_amount = - bet, t_type = ''game_lose'',
              t_description = JackpotPurchase (py_int bet), t_created_at = now\<rparr> #
            (if 0 < winning_tickets g k (nat (py_int bet))
             then [\<lparr>t_user_id = uid, t_amount = 100 * rat_of_nat (winning_tickets g k (nat (py_int bet))),
                    t_type = ''game_win'',
                    t_description = JackpotWinDescr (100 * rat_of_nat (winning_tickets g k (nat (py_int bet)))),
                    t_created_at = now\<rparr>]
             else []))"
  using assms
  by (simp add: handle_jackpot_play_def get_user_ok update_balance_ok add_transaction_ok
        update_game_stats_ok find_user_def find_update_users jackpot_loop_acc Let_def)

lemma winning_tickets_demo: "winning_tickets second_draw_low 0 3 = 1"
  by (simp add: winning_tickets_def second_draw_low_def jackpot_win_chance_def upt_rec)

section \<open>Reads change no table\<close>

lemma same_tables_refl [simp]: "same_tables d d"
  by (simp add: same_tables_def)

lemma same_tables_trans: "same_tables a b \<Longrightarrow> same_tables b c \<Longrightarrow> same_tables a c"
  by (simp add: same_tables_def)

lemma execute_tables: "execute d = (b, d') \<Longrightarrow> same_tables d d'"
  by (auto simp: execute_def same_tables_def split: list.splits)

lemma get_user_tables: "get_user uid d = (r, d') \<Longrightarrow> same_tables d d'"
  by (auto simp: get_user_def split: prod.splits bool.splits dest: execute_tables)

lemma get_sponsors_tables: "get_sponsors d = (r, d') \<Longrightarrow> same_tables d d'"
  by (auto simp: get_sponsors_def split: prod.splits bool.splits dest: execute_tables)

lemma get_user_sponsors_status_tables:
  "get_user_sponsors_status uid d = (r, d') \<Longrightarrow> same_tables d d'"
  by (auto simp: get_user_sponsors_status_def Let_def
        split: prod.splits bool.splits list.splits
        dest!: execute_tables get_sponsors_tables intro: same_tables_trans)

lemma count_active_tables: "count_active rows d active = (r, d') \<Longrightarrow> same_tables d d'"
proof (induction rows arbitrary: d active)
  case Nil
  then show ?case by simp
next
  case (Cons x rows)
  obtain st d1 where s: "get_user_sponsors_status (user_id x) d = (st, d1)"
    by (cases "get_user_sponsors_status (user_id x) d")
  have a: "same_tables d d1"
    by (rule get_user_sponsors_status_tables [OF s])
  have b: "same_tables d1 d'"
    using Cons.prems Cons.IH by (simp add: s)
  show ?case
    by (rule same_tables_trans [OF a b])
qed

lemma get_user_referrals_tables: "get_user_referrals uid d = (r, d') \<Longrightarrow> same_tables d d'"
  by (auto simp: get_user_referrals_def Let_def split: prod.splits bool.splits
        dest!: execute_tables count_active_tables intro: same_tables_trans)

lemma get_user_sponsors_status_ok:
  "outages d = [] \<Longrightarrow> snd (get_user_sponsors_status uid d) = d"
  by (simp add: get_user_sponsors_status_def get_sponsors_def execute_ok Let_def split: list.split)

lemma count_active_ok: "outages d = [] \<Longrightarrow> snd (count_active rows d active) = d"
proof (induction rows arbitrary: active)
  case Nil
  show ?case by simp
next
  case (Cons r rows)
  obtain st d1 where s: "get_user_sponsors_status (user_id r) d = (st, d1)"
    by (cases "get_user_sponsors_status (user_id r) d")
  have "d1 = d"
    using get_user_sponsors_status_ok [OF Cons.prems, of "user_id r"] s by simp
  then show ?case
    using Cons by (simp add: s)
qed

lemma get_user_referrals_ok:
  "outages d = [] \<Longrightarrow>
   get_user_referrals uid d = ((fst (fst (get_user_referrals uid d)), active_referrals uid d), d)"
proof -
  assume o: "outages d = []"
  obtain a d1 where c: "count_active (filter (\<lambda>u. referrer_id u = Some uid) (users d)) d 0 = (a, d1)"
    by (cases "count_active (filter (\<lambda>u. referrer_id u = Some uid) (users d)) d 0")
  have "d1 = d"
    using count_active_ok [OF o, of "filter (\<lambda>u. referrer_id u = Some uid) (users d)" 0] c by simp
  then have "snd (get_user_referrals uid d) = d"
    by (simp add: get_user_referrals_def execute_ok o Let_def c)
  then show ?thesis
    by (simp add: active_referrals_def prod_eq_iff)
qed

lemma create_withdrawal_ok:
  "outages d = [] \<Longrightarrow>
   create_withdrawal now uid amount d =
     (Some \<lparr>w_id = int (length (withdrawals d)) + 1, w_user_id = uid, w_amount = amount,
            w_status = ''pending'', w_created_at = now\<rparr>,
      d\<lparr>withdrawals := withdrawals d @
         [\<lparr>w_id = int (length (withdrawals d)) + 1, w_user_id = uid, w_amount = amount,
           w_status = ''pending'', w_created_at = now\<rparr>]\<rparr>)"
  by (simp add: create_withdrawal_def execute_ok Let_def)

lemma handle_withdraw_ok:
  assumes "outages d = []" and "find_user uid d = Some usr"
  shows "handle_withdraw now uid (Some amount) d =
     (if balance usr < amount then (InsufficientFunds (balance usr), d)
      else if active_referrals uid d < 3 then (NeedReferrals (active_referrals uid d), d)
      else (WithdrawalApproved amount (int (length (withdrawals d)) + 1),
            d\<lparr>withdrawals := withdrawals d @
                 [\<lparr>w_id = int (length (withdrawals d)) + 1, w_user_id = uid, w_amount = amount,
                   w_status = ''pending'', w_created_at = now\<rparr>],
               users := update_users uid (\<lambda>u. u\<lparr>balance := balance usr - amount\<rparr>) (users d),
               transactions := transactions d @
                 [\<lparr>t_user_id = uid, t_amount = - amount, t_type = ''withdrawal'',
                   t_description = WithdrawalNo (int (length (withdrawals d)) + 1),
                   t_created_at = now\<rparr>]\<rparr>))"
proof -
  obtain t where r: "get_user_referrals uid d = ((t, active_referrals uid d), d)"
    using get_user_referrals_ok [OF assms(1)] by blast
  show ?thesis
    using assms
    by (simp add: handle_withdraw_def get_user_ok r create_withdrawal_ok update_balance_ok
          add_transaction_ok find_user_def Let_def)
qed

lemma check_subscriptions_ok: "outages d = [] \<Longrightarrow> snd (check_subscriptions uid d) = d"
  using get_user_sponsors_status_ok [of d uid]
  by (auto simp: check_subscriptions_def split: prod.split)

lemma create_withdrawal_tables:
  "create_withdrawal now uid amount d = (r, d') \<Longrightarrow>
   (r = None \<and> same_tables d d') \<or>
   (\<exists>w. r = Some w \<and> withdrawals d' = withdrawals d @ [w])"
  by (auto simp: create_withdrawal_def Let_def same_tables_def split: prod.splits bool.splits
        dest!: execute_tables)

lemma execute_withdrawals: "withdrawals (snd (execute d)) = withdrawals d"
  by (simp add: execute_def split: list.split)

lemma update_balance_withdrawals: "withdrawals (snd (update_balance uid a d)) = withdrawals d"
  using execute_withdrawals [of d] execute_withdrawals [of "snd (execute d)"]
  by (auto simp: update_balance_def get_user_def Let_def split: prod.splits bool.splits option.splits)

lemma add_transaction_withdrawals:
  "withdrawals (snd (add_transaction now uid a ty de d)) = withdrawals d"
  using execute_withdrawals [of d]
  by (auto simp: add_transaction_def split: prod.splits bool.splits)

lemma handle_withdraw_row_first:
  assumes "withdrawals (snd (handle_withdraw now uid amt d)) = withdrawals d"
  shows "users (snd (handle_withdraw now uid amt d)) = users d \<and>
         transactions (snd (handle_withdraw now uid amt d)) = transactions d"
proof (cases amt)
  case None
  then show ?thesis by (simp add: handle_withdraw_def)
next
  case (Some amount)
  obtain u d1 where g: "get_user uid d = (u, d1)"
    by (cases "get_user uid d")
  have t1: "same_tables d d1"
    by (rule get_user_tables [OF g])
  show ?thesis
  proof (cases u)
    case None
    then show ?thesis
      using t1 by (simp add: handle_withdraw_def Some g same_tables_def)
  next
    case (Some usr)
    note u = this
    obtain tot act d2 where r: "get_user_referrals uid d1 = ((tot, act), d2)"
      by (cases "get_user_referrals uid d1") auto
    have t2: "same_tables d d2"
      by (rule same_tables_trans [OF t1 get_user_referrals_tables [OF r]])
    obtain w d3 where c: "create_withdrawal now uid amount d2 = (w, d3)"
      by (cases "create_withdrawal now uid amount d2")
    consider (poor) "balance usr < amount"
      | (few) "\<not> balance usr < amount" "act < 3"
      | (go) "\<not> balance usr < amount" "\<not> act < 3"
      by blast
    then show ?thesis
    proof cases
      case poor
      then show ?thesis
        using t1 by (simp add: handle_withdraw_def \<open>amt = Some amount\<close> g u same_tables_def)
    next
      case few
      then show ?thesis
        using t2 by (simp add: handle_withdraw_def \<open>amt = Some amount\<close> g u r same_tables_def)
    next
      case go
      from create_withdrawal_tables [OF c] show ?thesis
      proof
        assume "w = None \<and> same_tables d2 d3"
        then show ?thesis
          using go same_tables_trans [OF t2, of d3]
          by (simp add: handle_withdraw_def \<open>amt = Some amount\<close> g u r c same_tables_def)
      next
        assume "\<exists>x. w = Some x \<and> withdrawals d3 = withdrawals d2 @ [x]"
        then obtain x where x: "w = Some x" "withdrawals d3 = withdrawals d2 @ [x]"
          by blast
        have "withdrawals (snd (handle_withdraw now uid amt d)) = withdrawals d @ [x]"
          using go t2 x
          by (simp add: handle_withdraw_def \<open>amt = Some amount\<close> g u r c Let_def
                same_tables_def update_balance_withdrawals add_transaction_withdrawals)
        with assms show ?thesis by simp
      qed
    qed
  qed
qed

lemma active_referrals_demo: "active_referrals 1 demo_db = 3" "active_referrals 2 demo_db = 0"
  by code_simp+

lemma demo_db_facts:
  "outages demo_db = []" "find_user 1 demo_db = Some (demo_user 1 None 20)"
  "find_user 2 demo_db = Some (demo_user 2 (Some 1) 0)"
  "withdrawals demo_db = []" "transactions demo_db = []"
  by (simp_all add: demo_db_def find_user_def demo_user_def)

section \<open>Conservation outside account creation\<close>

text \<open>
  On a store that answers every request, a balance update together with the
  insertion of its transaction keeps conservation, and so do the click handler, the
  five bet handlers and the withdrawal handler.
\<close>

lemma conserved_owed: "conserved d = owed uid 0 d"
  by (simp add: conserved_def owed_def)

lemma update_balance_outages: "outages d = [] \<Longrightarrow> outages (snd (update_balance uid a d)) = []"
  by (simp add: update_balance_ok split: option.split)

lemma add_transaction_outages:
  "outages d = [] \<Longrightarrow> outages (snd (add_transaction now uid a ty de d)) = []"
  by (simp add: add_transaction_ok)

lemma update_game_stats_outages:
  "outages d = [] \<Longrightarrow> outages (snd (update_game_stats uid w won d)) = []"
  by (simp add: update_game_stats_ok split: option.split)

lemma update_last_click_ok:
  "outages d = [] \<Longrightarrow>
   update_last_click uid ts d =
     (find_user uid d \<noteq> None,
      d\<lparr>users := update_users uid (\<lambda>u. u\<lparr>last_click := Some ts\<rparr>) (users d)\<rparr>)"
  by (simp add: update_last_click_def execute_ok find_user_def)

lemma update_last_click_outages:
  "outages d = [] \<Longrightarrow> outages (snd (update_last_click uid ts d)) = []"
  by (simp add: update_last_click_ok)

lemma ledger_sum_users [simp]: "ledger_sum uid (d\<lparr>users := us\<rparr>) = ledger_sum uid d"
  by (simp add: ledger_sum_def)

lemma owed_update_balance:
  assumes "outages d = []" and "conserved d"
  shows "owed uid a (snd (update_balance uid a d))"
proof (cases "find_user uid d")
  case None
  then have "\<forall>u\<in>set (users d). user_id u \<noteq> uid"
    by (auto simp: find_user_def find_None_iff)
  then show ?thesis
    using assms None by (auto simp: update_balance_ok owed_def conserved_def list_all_iff)
next
  case (Some usr)
  then have "usr \<in> set (users d)" "user_id usr = uid"
    by (auto simp: find_user_def find_Some_iff)
  then have "balance usr = ledger_sum uid d"
    using assms(2) by (auto simp: conserved_def list_all_iff)
  then show ?thesis
    using assms Some
    by (auto simp: update_balance_ok owed_def conserved_def list_all_iff update_users_def)
qed

lemma conserved_add_transaction:
  assumes "outages d = []" and "owed uid a d"
  shows "conserved (snd (add_transaction now uid a ty de d))"
  using assms
  by (auto simp: add_transaction_ok owed_def conserved_def list_all_iff ledger_sum_def)

lemma owed_update_game_stats:
  assumes "outages d = []" and "owed uid a d"
  shows "owed uid a (snd (update_game_stats uid' w won d))"
  using assms
  by (auto simp: update_game_stats_ok owed_def list_all_iff update_users_def split: option.split)

lemma owed_update_last_click:
  assumes "outages d = []" and "owed uid a d"
  shows "owed uid a (snd (update_last_click uid' ts d))"
  using assms
  by (auto simp: update_last_click_ok owed_def list_all_iff update_users_def)

lemma conserved_credit:
  assumes "outages d = []" and "conserved d"
  shows "conserved (snd (add_transaction now uid a ty de (snd (update_balance uid a d))))"
  by (intro conserved_add_transaction owed_update_balance update_balance_outages assms)

lemma conserved_update_game_stats:
  "outages d = [] \<Longrightarrow> conserved d \<Longrightarrow> conserved (snd (update_game_stats uid w won d))"
  using owed_update_game_stats [of d 0 0 uid w won]
  by (simp add: conserved_def owed_def)

lemma conserved_round:
  assumes "outages d = []" and "conserved d"
  shows "conserved (snd (update_game_stats uid w won
           (snd (add_transaction now uid a ty de (snd (update_balance uid a d))))))"
  by (intro conserved_update_game_stats conserved_credit add_transaction_outages
        update_balance_outages assms)

lemma round_outages:
  assumes "outages d = []"
  shows "outages (snd (update_game_stats uid w won
           (snd (add_transaction now uid a ty de (snd (update_balance uid a d)))))) = []"
  by (intro update_game_stats_outages add_transaction_outages update_balance_outages assms)

lemma handle_bet_input_conserved:
  assumes "outages d = []" and "conserved d"
  shows "conserved (fst (snd (handle_bet_input now uid bet_text choice game_type d g k)))"
  using assms
  by (auto simp: handle_bet_input_def get_user_ok Let_def round_outages conserved_round
        split: option.split prod.split)

lemma handle_dice_bet_conserved:
  assumes "outages d = []" and "conserved d"
  shows "conserved (fst (snd (handle_dice_bet now uid bet_text user_number d g k)))"
  using assms
  by (auto simp: handle_dice_bet_def get_user_ok Let_def round_outages conserved_round
        split: option.split prod.split)

lemma play_crash_zero: "fst (snd (fst (play_crash 0 g k))) = 0"
  by (simp add: play_crash_def random_random_def random_uniform_def split: prod.split)

lemma play_slot_zero: "fst (snd (fst (play_slot 0 g k))) = 0"
  by (simp add: play_slot_def Let_def split: prod.split)

lemma conserved_update_balance_zero:
  assumes "outages d = []" and "conserved d"
  shows "conserved (snd (update_balance uid 0 d))"
  using owed_update_balance [OF assms, of uid 0]
  by (simp add: conserved_owed [of _ uid])

lemma handle_crash_play_conserved:
  assumes "outages d = []" and "conserved d"
  shows "conserved (fst (snd (handle_crash_play now uid bet_data d g k)))"
  using assms play_crash_zero [of g k]
  by (auto simp: handle_crash_play_def get_user_ok Let_def round_outages conserved_round
        conserved_update_balance_zero split: option.split prod.split)

lemma handle_slot_play_conserved:
  assumes "outages d = []" and "conserved d"
  shows "conserved (fst (snd (handle_slot_play now uid bet_data d g k)))"
  using assms play_slot_zero [of g k]
  by (auto simp: handle_slot_play_def get_user_ok Let_def round_outages conserved_round
        conserved_update_balance_zero split: option.split prod.split)

lemma handle_jackpot_play_conserved:
  assumes "outages d = []" and "conserved d"
  shows "conserved (fst (snd (handle_jackpot_play now uid bet_data d g k)))"
  using assms
  by (auto simp: handle_jackpot_play_def get_user_ok Let_def round_outages conserved_round
        split: option.split prod.split)

lemma handle_withdraw_conserved:
  assumes "outages d = []" and "conserved d"
  shows "conserved (snd (handle_withdraw now uid amount_data d))"
proof -
  obtain t where r: "get_user_referrals uid d = ((t, active_referrals uid d), d)"
    using get_user_referrals_ok [OF assms(1)] by blast
  have w: "conserved (d\<lparr>withdrawals := ws\<rparr>)" for ws
    using assms(2) by (simp add: conserved_def ledger_sum_def)
  show ?thesis
    using assms conserved_credit [of "d\<lparr>withdrawals := ws\<rparr>" for ws]
    by (auto simp: handle_withdraw_def get_user_ok r create_withdrawal_ok Let_def w
          split: option.split)
qed

lemma handle_click_conserved:
  assumes "outages d = []" and "conserved d"
  shows "conserved (snd (handle_click now uid uname d))"
proof -
  obtain b where c: "check_subscriptions uid d = (b, d)"
    using check_subscriptions_ok [OF assms(1), of uid] by (cases "check_subscriptions uid d") auto
  define d5 where "d5 = snd (add_transaction now uid CLICK_REWARD ''click'' Clicker
      (snd (update_last_click uid now (snd (update_balance uid CLICK_REWARD d)))))"
  have o5: "outages d5 = []"
    unfolding d5_def
    by (intro add_transaction_outages update_last_click_outages update_balance_outages assms)
  have c5: "conserved d5"
    unfolding d5_def
    by (intro conserved_add_transaction owed_update_last_click owed_update_balance
          update_last_click_outages update_balance_outages assms)
  have c7: "conserved (snd (add_transaction now r a ty de (snd (update_balance r a d5))))"
    and o7: "outages (snd (add_transaction now r a ty de (snd (update_balance r a d5)))) = []"
    for r a ty de
    by (intro conserved_credit add_transaction_outages update_balance_outages o5 c5)+
  show ?thesis
    using assms o5 c5 c7 o7
    by (auto simp: handle_click_def c get_user_ok Let_def d5_def [symmetric]
          split: option.split bool.split)
qed

section \<open>The games\<close>

text \<open>
  C8. A round of Monkey Flip takes its first draw for the special event and compares it
  with the special-event chance 0.015. When the event fires the round is lost with
  payout 0 whatever side was chosen, and no second draw is taken. Otherwise the next
  draw decides: the round is won exactly when that draw is below the win chance 0.49,
  and a win pays twice the bet.
\<close>

theorem play_flip_special_event_first:
  "(g k < flip_special_event_chance \<longrightarrow>
      play_flip bet choice g k = ((False, 0, FlipSpecialEvent), Suc k)) \<and>
   (\<not> g k < flip_special_event_chance \<longrightarrow>
      fst (fst (play_flip bet choice g k)) = (g (Suc k) < flip_win_chance) \<and>
      fst (snd (fst (play_flip bet choice g k))) =
        (if g (Suc k) < flip_win_chance then bet * 2 else 0) \<and>
      snd (play_flip bet choice g k) = Suc (Suc k)) \<and>
   flip_special_event_chance = 15 / 1000 \<and> flip_win_chance = 49 / 100"
  by (simp add: play_flip_def random_random_def flip_multiplier_def Let_def
        flip_special_event_chance_def flip_win_chance_def)

theorem play_flip_special_event_first_witness:
  "play_flip 5 ''heads'' (\<lambda>i. 0) 0 = ((False, 0, FlipSpecialEvent), 1) \<and>
   fst (fst (play_flip 5 ''heads'' second_draw_low 0)) \<and>
   fst (snd (fst (play_flip 5 ''heads'' second_draw_low 0))) = 10 \<and>
   snd (play_flip 5 ''heads'' second_draw_low 0) = 2"
  using play_flip_special_event_first [of "\<lambda>i. 0" 0 5 "''heads''"]
    play_flip_special_event_first [of second_draw_low 0 5 "''heads''"]
  by (simp add: second_draw_low_def)

text \<open>
  C9. A Jackpot round with \<open>n = int(bet)\<close> tickets takes \<open>n\<close> draws, one for each
  ticket; a ticket wins when its draw is below 0.01 and then pays 100 times the unit
  price 1. The winnings credited to the account are 100 times the number of winning
  tickets, and the reply reports a win exactly when at least one ticket won.
\<close>

theorem jackpot_round_payout:
  assumes "outages d = []" and "find_user uid d = Some usr" and "bet \<le> balance usr"
  shows "let n = nat (py_int bet); w = winning_tickets g k n in
     jackpot_loop n g k 0 0 = (100 * jackpot_ticket_price * rat_of_nat w, int w, k + n) \<and>
     (\<forall>i. fst (snd (fst (play_jackpot jackpot_ticket_price g i))) =
            (if g i < 1 / 100 then 100 * jackpot_ticket_price else 0)) \<and>
     (case handle_jackpot_play now uid (Some bet) d g k of
        (r, d', k') \<Rightarrow>
          r = JackpotResult (py_int bet) bet
                (if 0 < w then TicketsWon (int w) (100 * rat_of_nat w) else NoTicketWon)
                (balance usr - bet + 100 * rat_of_nat w) \<and>
          k' = k + n \<and>
          map_option balance (find_user uid d') = Some (balance usr - bet + 100 * rat_of_nat w) \<and>
          transactions d' = transactions d @
            \<lparr>t_user_id = uid, t_amount = - bet, t_type = ''game_lose'',
              t_description = JackpotPurchase (py_int bet), t_created_at = now\<rparr> #
            (if 0 < w
             then [\<lparr>t_user_id = uid, t_amount = 100 * rat_of_nat w, t_type = ''game_win'',
                    t_description = JackpotWinDescr (100 * rat_of_nat w), t_created_at = now\<rparr>]
             else []))"
  using handle_jackpot_play_ok [OF assms, where now = now and g = g and k = k]
  by (simp add: Let_def jackpot_loop_acc play_jackpot_def random_random_def
        jackpot_ticket_price_def jackpot_win_chance_def jackpot_multiplier_def
        split: prod.splits)

theorem jackpot_round_payout_witness:
  "outages demo_db = [] \<and> find_user 1 demo_db = Some (demo_user 1 None 20) \<and>
   3 \<le> balance (demo_user 1 None 20) \<and>
   jackpot_loop 3 second_draw_low 0 0 0 = (100, 1, 3) \<and>
   fst (handle_jackpot_play 0 1 (Some 3) demo_db second_draw_low 0) =
     JackpotResult 3 3 (TicketsWon 1 100) 117"
proof -
  have h: "outages demo_db = []" "find_user 1 demo_db = Some (demo_user 1 None 20)"
    "3 \<le> balance (demo_user 1 None 20)"
    by (simp_all add: demo_db_def find_user_def demo_user_def)
  have n: "py_int 3 = 3"
    by (simp add: py_int_def)
  show ?thesis
    using h jackpot_round_payout [OF h, where now = 0 and g = second_draw_low and k = 0]
    by (simp add: Let_def n winning_tickets_demo jackpot_ticket_price_def demo_user_def
          split: prod.splits)
qed

text \<open>
  C10. A Jackpot round in which a ticket wins adds 2 to \<open>games_played\<close> (the purchase
  and the credit of the winnings each count a game) and 1 to \<open>games_won\<close>; a round
  without a winning ticket adds 1 to \<open>games_played\<close> and leaves \<open>games_won\<close>.
\<close>

theorem jackpot_counts_game_twice:
  assumes "outages d = []" and "find_user uid d = Some usr" and "bet \<le> balance usr"
  shows "case handle_jackpot_play now uid (Some bet) d g k of
        (r, d', k') \<Rightarrow>
          map_option games_played (find_user uid d') =
            Some (games_played usr + (if 0 < winning_tickets g k (nat (py_int bet)) then 2 else 1)) \<and>
          map_option games_won (find_user uid d') =
            Some (games_won usr + (if 0 < winning_tickets g k (nat (py_int bet)) then 1 else 0))"
  using handle_jackpot_play_ok [OF assms, where now = now and g = g and k = k]
  by (simp split: prod.splits)

theorem jackpot_counts_game_twice_witness:
  "outages demo_db = [] \<and> find_user 1 demo_db = Some (demo_user 1 None 20) \<and>
   3 \<le> balance (demo_user 1 None 20) \<and>
   (case handle_jackpot_play 0 1 (Some 3) demo_db second_draw_low 0 of
      (r, d', k') \<Rightarrow>
        map_option games_played (find_user 1 d') = Some 2 \<and>
        map_option games_won (find_user 1 d') = Some 1) \<and>
   (case handle_jackpot_play 0 1 (Some 3) demo_db (\<lambda>i. 1 / 2) 0 of
      (r, d', k') \<Rightarrow>
        map_option games_played (find_user 1 d') = Some 1 \<and>
        map_option games_won (find_user 1 d') = Some 0)"
proof -
  have h: "outages demo_db = []" "find_user 1 demo_db = Some (demo_user 1 None 20)"
    "3 \<le> balance (demo_user 1 None 20)"
    by (simp_all add: demo_db_def find_user_def demo_user_def)
  have n: "py_int 3 = 3"
    by (simp add: py_int_def)
  have w: "winning_tickets (\<lambda>i. 1 / 2) 0 3 = 0"
    by (simp add: winning_tickets_def jackpot_win_chance_def)
  show ?thesis
    using h jackpot_counts_game_twice [OF h, where now = 0 and g = second_draw_low and k = 0]
      jackpot_counts_game_twice [OF h, where now = 0 and g = "\<lambda>i. 1 / 2" and k = 0]
    by (simp add: n w winning_tickets_demo demo_user_def split: prod.splits)
qed

section \<open>Accounts and referrals\<close>

text \<open>
  C7. When account \<open>B\<close> is created with referrer \<open>A\<close> and \<open>A\<close> exists, the balance of
  \<open>A\<close> grows by 3, the balance of \<open>B\<close> becomes 2, and two transactions of type
  \<open>referral_bonus\<close> are recorded, 3 for \<open>A\<close> and 2 for \<open>B\<close>. When \<open>A\<close> does not exist
  the creation of \<open>B\<close> succeeds with balance 0 and without any transaction. Account
  ids are Telegram user ids: they are not 0 (which \<open>create_user\<close> reads as no
  referrer), and \<open>cmd_start\<close> never passes an account as its own referrer.
\<close>

theorem referral_bonus_on_creation:
  assumes "outages d = []" and "A \<noteq> B" and "A \<noteq> 0"
  shows "case create_user now B uname (Some A) d of
     (ok, d') \<Rightarrow>
       ok \<and>
       (case find_user A d of
          Some a \<Rightarrow>
            map_option balance (find_user A d') = Some (balance a + 3) \<and>
            map_option balance (find_user B d') = Some 2 \<and>
            transactions d' = transactions d @
              [\<lparr>t_user_id = A, t_amount = 3, t_type = ''referral_bonus'',
                t_description = ForInviting uname, t_created_at = now\<rparr>,
               \<lparr>t_user_id = B, t_amount = 2, t_type = ''referral_bonus'',
                t_description = ForReferralSignup, t_created_at = now\<rparr>]
        | None \<Rightarrow>
            find_user A d' = None \<and>
            map_option balance (find_user B d') = Some 0 \<and>
            transactions d' = transactions d)"
  using create_user_ok [OF assms, where now = now and uname = uname]
  by (simp add: REFERRAL_REWARD_REFERRER_def REFERRAL_REWARD_REFEREE_def
        split: prod.splits option.splits)

theorem referral_bonus_on_creation_witness:
  "outages demo_db = [] \<and> (1::int) \<noteq> 5 \<and> (1::int) \<noteq> 0 \<and>
   fst (create_user 0 5 (Some ''eve'') (Some 1) demo_db) \<and>
   map_option balance (find_user 1 (snd (create_user 0 5 (Some ''eve'') (Some 1) demo_db))) = Some 23 \<and>
   map_option balance (find_user 5 (snd (create_user 0 5 (Some ''eve'') (Some 1) demo_db))) = Some 2 \<and>
   fst (create_user 0 5 (Some ''eve'') (Some 9) demo_db) \<and>
   map_option balance (find_user 5 (snd (create_user 0 5 (Some ''eve'') (Some 9) demo_db))) = Some 0 \<and>
   transactions (snd (create_user 0 5 (Some ''eve'') (Some 9) demo_db)) = []"
proof -
  have h: "outages demo_db = []"
    by (simp add: demo_db_def)
  have a: "find_user 1 demo_db = Some (demo_user 1 None 20)" "find_user 9 demo_db = None"
    by (simp_all add: demo_db_def find_user_def demo_user_def)
  have t: "transactions demo_db = []"
    by (simp add: demo_db_def)
  show ?thesis
    using h referral_bonus_on_creation [OF h, where A = 1 and B = 5 and now = 0 and uname = "Some ''eve''"]
      referral_bonus_on_creation [OF h, where A = 9 and B = 5 and now = 0 and uname = "Some ''eve''"]
    by (simp add: a t demo_user_def split: prod.splits)
qed

text \<open>
  C1. The balance of an account is meant to be the sum of its recorded transactions.
  \<open>create_user\<close> writes a whole new row, balance 0 included, over the row of an
  account that exists already, and \<open>cmd_start\<close> calls it on every \<open>/start\<close>: after one
  click account 1 has balance 0.2 and one transaction of 0.2, and after its next
  \<open>/start\<close> the balance is 0 while the transactions still sum to 0.2. The other
  handlers keep conservation (the lemmas on \<open>conserved\<close> above).
\<close>

theorem restart_resets_balance:
  "map_option balance (find_user 1 after_click) = Some (1 / 5) \<and>
   ledger_sum 1 after_click = 1 / 5 \<and>
   map_option balance (find_user 1 (snd (cmd_start 20 1 (Some ''ann'') NoArgs after_click))) = Some 0 \<and>
   ledger_sum 1 (snd (cmd_start 20 1 (Some ''ann'') NoArgs after_click)) = 1 / 5"
  by code_simp

text \<open>
  C6. The referrer of an account is meant to be fixed when the account is created.
  The row that \<open>create_user\<close> writes over an existing account carries the referrer of
  the new call: account 2, invited by account 1, loses its referrer on a plain
  \<open>/start\<close> and gets referrer 3 on a \<open>/start\<close> with the link of 3.
\<close>

theorem restart_changes_referrer:
  "map_option referrer_id (find_user 2 invited) = Some (Some 1) \<and>
   map_option referrer_id (find_user 2 (snd (cmd_start 20 2 (Some ''bob'') NoArgs invited))) = Some None \<and>
   map_option referrer_id (find_user 2 (snd (cmd_start 20 2 (Some ''bob'') (IntArgs 3) invited)))
     = Some (Some 3)"
  by code_simp

section \<open>Debits and withdrawals\<close>

text \<open>
  C2, as stated: a bet or withdrawal above the balance is refused with the
  insufficient-funds reply. The Flip and Dice handlers check the minimum bet first:
  with balance 0.2 a bet of 0.5 is above the balance and is refused with the
  minimum-bet reply.
\<close>

theorem min_bet_refusal_first:
  "map_option balance (find_user 1 poor_db) = Some (1 / 5) \<and>
   fst (handle_bet_input 0 1 (Some (1 / 2)) ''heads'' ''flip'' poor_db no_luck 0) = MinimumBet 1 \<and>
   fst (handle_dice_bet 0 1 (Some (1 / 2)) 4 poor_db no_luck 0) = MinimumBet 1"
  by code_simp

text \<open>
  C2, amended. For an account with a balance below the amount, each of the five bet
  handlers and the withdrawal handler refuses: the reply is the insufficient-funds
  reply, or for Flip and Dice the minimum-bet reply when the amount is below the
  minimum bet of 1; the store is left as it was (no transaction, same balance) and no
  draw is taken.
\<close>

theorem debit_above_balance_refused:
  assumes "outages d = []" and "find_user uid d = Some usr" and "balance usr < amount"
  shows "handle_bet_input now uid (Some amount) choice game_type d g k =
           (if amount < 1 then MinimumBet 1 else InsufficientFunds (balance usr), d, k) \<and>
         handle_dice_bet now uid (Some amount) user_number d g k =
           (if amount < 1 then MinimumBet 1 else InsufficientFunds (balance usr), d, k) \<and>
         handle_crash_play now uid (Some amount) d g k = (InsufficientFunds (balance usr), d, k) \<and>
         handle_slot_play now uid (Some amount) d g k = (InsufficientFunds (balance usr), d, k) \<and>
         handle_jackpot_play now uid (Some amount) d g k = (InsufficientFunds (balance usr), d, k) \<and>
         handle_withdraw now uid (Some amount) d = (InsufficientFunds (balance usr), d)"
  using assms
  by (simp add: handle_bet_input_def handle_dice_bet_def handle_crash_play_def
        handle_slot_play_def handle_jackpot_play_def handle_withdraw_def get_user_ok
        MIN_BETS_flip_def MIN_BETS_dice_def Let_def)

theorem debit_above_balance_refused_witness:
  "outages poor_db = [] \<and> find_user 1 poor_db = Some (demo_user 1 None (1 / 5)) \<and>
   balance (demo_user 1 None (1 / 5)) < 2 \<and>
   handle_bet_input 0 1 (Some 2) ''heads'' ''flip'' poor_db no_luck 0 =
     (InsufficientFunds (1 / 5), poor_db, 0) \<and>
   handle_crash_play 0 1 (Some 2) poor_db no_luck 0 = (InsufficientFunds (1 / 5), poor_db, 0) \<and>
   handle_withdraw 0 1 (Some 2) poor_db = (InsufficientFunds (1 / 5), poor_db)"
proof -
  have h: "outages poor_db = []" "find_user 1 poor_db = Some (demo_user 1 None (1 / 5))"
    "balance (demo_user 1 None (1 / 5)) < 2"
    by (simp_all add: poor_db_def find_user_def demo_user_def)
  show ?thesis
    using h debit_above_balance_refused [OF h, where now = 0 and choice = "''heads''"
        and game_type = "''flip''" and g = no_luck and k = 0 and user_number = 4]
    by (simp add: demo_user_def)
qed

text \<open>
  C3. For an existing account, a withdrawal is refused, and the store left as it was,
  whenever the account has fewer than 3 active referrals, whatever its balance, and
  whenever its balance is below the amount, whatever its referrals. When the balance
  covers the amount and there are at least 3 active referrals, one row with status
  \<open>pending\<close> is added to the withdrawals, one transaction of type \<open>withdrawal\<close> with the
  negated amount is added, and the balance decreases by the amount.
\<close>

theorem withdrawal_gate:
  assumes "outages d = []" and "find_user uid d = Some usr"
  shows "(active_referrals uid d < 3 \<longrightarrow>
            snd (handle_withdraw now uid (Some amount) d) = d \<and>
            fst (handle_withdraw now uid (Some amount) d) =
              (if balance usr < amount then InsufficientFunds (balance usr)
               else NeedReferrals (active_referrals uid d))) \<and>
         (balance usr < amount \<longrightarrow>
            handle_withdraw now uid (Some amount) d = (InsufficientFunds (balance usr), d)) \<and>
         (amount \<le> balance usr \<and> 3 \<le> active_referrals uid d \<longrightarrow>
            fst (handle_withdraw now uid (Some amount) d) =
              WithdrawalApproved amount (int (length (withdrawals d)) + 1) \<and>
            withdrawals (snd (handle_withdraw now uid (Some amount) d)) =
              withdrawals d @
                [\<lparr>w_id = int (length (withdrawals d)) + 1, w_user_id = uid, w_amount = amount,
                  w_status = ''pending'', w_created_at = now\<rparr>] \<and>
            transactions (snd (handle_withdraw now uid (Some amount) d)) =
              transactions d @
                [\<lparr>t_user_id = uid, t_amount = - amount, t_type = ''withdrawal'',
                  t_description = WithdrawalNo (int (length (withdrawals d)) + 1),
                  t_created_at = now\<rparr>] \<and>
            map_option balance (find_user uid (snd (handle_withdraw now uid (Some amount) d))) =
              Some (balance usr - amount))"
  using assms(2)
  by (simp add: handle_withdraw_ok [OF assms] find_user_def find_update_users)

theorem withdrawal_gate_witness:
  "outages demo_db = [] \<and> find_user 1 demo_db = Some (demo_user 1 None 20) \<and>
   find_user 2 demo_db = Some (demo_user 2 (Some 1) 0) \<and>
   active_referrals 2 demo_db < 3 \<and>
   handle_withdraw 0 2 (Some 0) demo_db = (NeedReferrals 0, demo_db) \<and>
   balance (demo_user 1 None 20) < 25 \<and>
   handle_withdraw 0 1 (Some 25) demo_db = (InsufficientFunds 20, demo_db) \<and>
   15 \<le> balance (demo_user 1 None 20) \<and> 3 \<le> active_referrals 1 demo_db \<and>
   fst (handle_withdraw 0 1 (Some 15) demo_db) = WithdrawalApproved 15 1 \<and>
   withdrawals (snd (handle_withdraw 0 1 (Some 15) demo_db)) =
     [\<lparr>w_id = 1, w_user_id = 1, w_amount = 15, w_status = ''pending'', w_created_at = 0\<rparr>] \<and>
   transactions (snd (handle_withdraw 0 1 (Some 15) demo_db)) =
     [\<lparr>t_user_id = 1, t_amount = - 15, t_type = ''withdrawal'',
       t_description = WithdrawalNo 1, t_created_at = 0\<rparr>] \<and>
   map_option balance (find_user 1 (snd (handle_withdraw 0 1 (Some 15) demo_db))) = Some 5"
  using withdrawal_gate [OF demo_db_facts(1) demo_db_facts(3), where now = 0 and amount = 0]
    withdrawal_gate [OF demo_db_facts(1) demo_db_facts(2), where now = 0 and amount = 25]
    withdrawal_gate [OF demo_db_facts(1) demo_db_facts(2), where now = 0 and amount = 15]
  by (simp add: demo_db_facts active_referrals_demo demo_user_def prod_eq_iff)

text \<open>
  C4, as stated: the withdrawal handler rejects an amount outside the configured
  amounts 15, 25, 50, 100. It does not: with balance 20 and 3 active referrals a
  withdrawal of 7 is approved and debited.
\<close>

theorem withdraw_accepts_other_amount:
  "7 \<notin> set WITHDRAWAL_AMOUNTS \<and>
   fst (handle_withdraw 0 1 (Some 7) demo_db) = WithdrawalApproved 7 1 \<and>
   map w_amount (withdrawals (snd (handle_withdraw 0 1 (Some 7) demo_db))) = [7] \<and>
   map t_amount (transactions (snd (handle_withdraw 0 1 (Some 7) demo_db))) = [- 7] \<and>
   map_option balance (find_user 1 (snd (handle_withdraw 0 1 (Some 7) demo_db))) = Some 13"
  by code_simp

text \<open>
  C4, amended. The configured amounts only make the buttons of the withdrawal menu.
  The withdrawal handler approves every amount, configured or not, that the balance
  covers when the account has 3 active referrals.
\<close>

theorem withdraw_amount_not_validated:
  assumes "outages d = []" and "find_user uid d = Some usr"
    and "amount \<le> balance usr" and "3 \<le> active_referrals uid d"
  shows "fst (handle_withdraw now uid (Some amount) d) =
           WithdrawalApproved amount (int (length (withdrawals d)) + 1) \<and>
         map w_amount (withdrawals (snd (handle_withdraw now uid (Some amount) d))) =
           map w_amount (withdrawals d) @ [amount] \<and>
         (fst (handle_withdraw_menu uid d) = Inr WITHDRAWAL_AMOUNTS \<or>
          fst (handle_withdraw_menu uid d) = Inl SubscribeFirst)"
  using assms(3,4)
  by (simp add: handle_withdraw_ok [OF assms(1,2)] handle_withdraw_menu_def
        split: prod.split bool.split)

theorem withdraw_amount_not_validated_witness:
  "outages demo_db = [] \<and> find_user 1 demo_db = Some (demo_user 1 None 20) \<and>
   7 \<le> balance (demo_user 1 None 20) \<and> 3 \<le> active_referrals 1 demo_db \<and>
   7 \<notin> set WITHDRAWAL_AMOUNTS \<and>
   fst (handle_withdraw 3 1 (Some 7) demo_db) = WithdrawalApproved 7 1 \<and>
   map w_amount (withdrawals (snd (handle_withdraw 3 1 (Some 7) demo_db))) = [7]"
  using withdraw_amount_not_validated [OF demo_db_facts(1) demo_db_facts(2),
      where now = 3 and amount = 7]
  by (simp add: demo_db_facts active_referrals_demo demo_user_def WITHDRAWAL_AMOUNTS_def)

text \<open>
  C5, as stated: no state has a withdrawal row without its debit. The row, the balance
  update and the transaction are three separate requests, and the outcome of the last
  two is not looked at: with an outage at the balance update the withdrawal is
  approved, its row exists, the balance is still 20 and no transaction is written.
\<close>

theorem withdrawal_row_without_debit:
  "fst (handle_withdraw 0 1 (Some 15) debit_outage_db) = WithdrawalApproved 15 1 \<and>
   map w_amount (withdrawals (snd (handle_withdraw 0 1 (Some 15) debit_outage_db))) = [15] \<and>
   transactions (snd (handle_withdraw 0 1 (Some 15) debit_outage_db)) = [] \<and>
   map_option balance (find_user 1 (snd (handle_withdraw 0 1 (Some 15) debit_outage_db))) = Some 20"
  by code_simp

text \<open>
  C5, amended. The handler inserts the row first and goes on only when that
  succeeded: under every schedule of outages, when no row was added then neither the
  users nor the transactions have changed (there is no debit without a row). And when
  the store answers every request the handler either leaves the store as it was or
  adds the row, the transaction and the balance decrease together.
\<close>

theorem withdrawal_row_precedes_debit:
  "(withdrawals (snd (handle_withdraw now uid amt d)) = withdrawals d \<longrightarrow>
      users (snd (handle_withdraw now uid amt d)) = users d \<and>
      transactions (snd (handle_withdraw now uid amt d)) = transactions d) \<and>
   (outages d = [] \<longrightarrow>
      snd (handle_withdraw now uid amt d) = d \<or>
      (\<exists>usr amount wd.
         find_user uid d = Some usr \<and> amt = Some amount \<and>
         withdrawals (snd (handle_withdraw now uid amt d)) = withdrawals d @ [wd] \<and>
         w_user_id wd = uid \<and> w_amount wd = amount \<and> w_status wd = ''pending'' \<and>
         transactions (snd (handle_withdraw now uid amt d)) =
           transactions d @
             [\<lparr>t_user_id = uid, t_amount = - amount, t_type = ''withdrawal'',
               t_description = WithdrawalNo (w_id wd), t_created_at = now\<rparr>] \<and>
         map_option balance (find_user uid (snd (handle_withdraw now uid amt d))) =
           Some (balance usr - amount)))"
proof (intro conjI impI)
  assume "withdrawals (snd (handle_withdraw now uid amt d)) = withdrawals d"
  then show "users (snd (handle_withdraw now uid amt d)) = users d"
    and "transactions (snd (handle_withdraw now uid amt d)) = transactions d"
    using handle_withdraw_row_first [of now uid amt d] by simp_all
next
  assume o: "outages d = []"
  show "snd (handle_withdraw now uid amt d) = d \<or>
      (\<exists>usr amount wd.
         find_user uid d = Some usr \<and> amt = Some amount \<and>
         withdrawals (snd (handle_withdraw now uid amt d)) = withdrawals d @ [wd] \<and>
         w_user_id wd = uid \<and> w_amount wd = amount \<and> w_status wd = ''pending'' \<and>
         transactions (snd (handle_withdraw now uid amt d)) =
           transactions d @
             [\<lparr>t_user_id = uid, t_amount = - amount, t_type = ''withdrawal'',
               t_description = WithdrawalNo (w_id wd), t_created_at = now\<rparr>] \<and>
         map_option balance (find_user uid (snd (handle_withdraw now uid amt d))) =
           Some (balance usr - amount))"
  proof (cases amt)
    case None
    then show ?thesis by (simp add: handle_withdraw_def)
  next
    case (Some amount)
    show ?thesis
    proof (cases "find_user uid d")
      case None
      then show ?thesis
        by (simp add: handle_withdraw_def Some get_user_ok o)
    next
      case (Some usr)
      then show ?thesis
        by (simp add: \<open>amt = Some amount\<close> handle_withdraw_ok [OF o Some] find_user_def
              find_update_users)
    qed
  qed
qed

theorem withdrawal_row_precedes_debit_witness:
  "withdrawals (snd (handle_withdraw 0 1 (Some 15) row_outage_db)) = withdrawals row_outage_db \<and>
   users (snd (handle_withdraw 0 1 (Some 15) row_outage_db)) = users row_outage_db \<and>
   transactions (snd (handle_withdraw 0 1 (Some 15) row_outage_db)) = transactions row_outage_db \<and>
   fst (handle_withdraw 0 1 (Some 15) row_outage_db) = WithdrawalFailed \<and>
   outages demo_db = [] \<and>
   snd (handle_withdraw 0 1 (Some 15) demo_db) \<noteq> demo_db \<and>
   map w_amount (withdrawals (snd (handle_withdraw 0 1 (Some 15) demo_db))) = [15] \<and>
   map t_amount (transactions (snd (handle_withdraw 0 1 (Some 15) demo_db))) = [- 15] \<and>
   map_option balance (find_user 1 (snd (handle_withdraw 0 1 (Some 15) demo_db))) = Some 5"
proof -
  have w: "withdrawals (snd (handle_withdraw 0 1 (Some 15) row_outage_db)) = withdrawals row_outage_db"
    "fst (handle_withdraw 0 1 (Some 15) row_outage_db) = WithdrawalFailed"
    by code_simp+
  have n: "withdrawals (snd (handle_withdraw 0 1 (Some 15) demo_db)) \<noteq> withdrawals demo_db"
    by code_simp
  then have m: "snd (handle_withdraw 0 1 (Some 15) demo_db) \<noteq> demo_db"
    by auto
  show ?thesis
    using w n m withdrawal_row_precedes_debit [of 0 1 "Some 15" row_outage_db]
      withdrawal_row_precedes_debit [of 0 1 "Some 15" demo_db]
    by (auto simp: demo_db_facts demo_user_def)
qed

end
